theory Spec2Isabelle
  imports Main
begin

section \<open>JavaScript values\<close>

text \<open>
  A JavaScript number is either \<open>NaN\<close> or a value that the relational operators order
  linearly (the finite doubles and the two infinities, with \<open>-0\<close> and \<open>+0\<close> equal).
  The carrier \<open>'n\<close> of the ordered values is left open; only its order and its zero are used.
\<close>

datatype 'n jsnum = NaN | Val 'n

text \<open>\<open>a > b\<close> on numbers: false as soon as one side is \<open>NaN\<close>.\<close>

fun gt :: "('n::linorder) jsnum \<Rightarrow> 'n jsnum \<Rightarrow> bool" where
  "gt (Val a) (Val b) = (b < a)"
| "gt _ _ = False"

text \<open>\<open>a === b\<close> on numbers: \<open>NaN\<close> is equal to nothing, not even to itself.\<close>

fun strict_eq :: "'n jsnum \<Rightarrow> 'n jsnum \<Rightarrow> bool" where
  "strict_eq (Val a) (Val b) = (a = b)"
| "strict_eq _ _ = False"

text \<open>
  The values that \<open>JSON.parse\<close> and a property read produce: \<open>undefined\<close> (a property that
  is not there), \<open>null\<close>, booleans, numbers (never \<open>NaN\<close> in parsed JSON), strings, and
  arrays or objects, which are opaque here and told apart by their reference.
\<close>

datatype 'n jsval = JUndefined | JNull | JBool bool | JNum 'n | JStr string | JObj nat

text \<open>
  What the host does when it converts a value to a number is not in the repository:
  parsing a numeric literal, rounding to a double, and, for an object, calling its
  \<open>valueOf\<close> and \<open>toString\<close>. It is a parameter. On a string or a boolean a conversion
  always gives a number or \<open>NaN\<close>. On an object it can throw a \<open>TypeError\<close> (an object
  parsed from \<open>{"toString": 0}\<close> has no callable \<open>toString\<close>, and the \<open>valueOf\<close> it
  inherits returns the object itself); \<open>None\<close> is that exception.
\<close>

record 'n host =
  Number_primitive :: "'n jsval \<Rightarrow> 'n jsnum"
  Number_object :: "nat \<Rightarrow> 'n jsnum option"
  parseInt_primitive :: "'n jsval \<Rightarrow> 'n jsnum"
  parseInt_object :: "nat \<Rightarrow> 'n jsnum option"

text \<open>
  \<open>Number(v)\<close>. ECMAScript fixes the result for \<open>undefined\<close> (\<open>NaN\<close>), \<open>null\<close> (\<open>+0\<close>) and
  numbers (the number itself); the rest is the host's. \<open>None\<close> when it throws.
\<close>

definition Number :: "'n host \<Rightarrow> ('n::zero) jsval \<Rightarrow> 'n jsnum option" where
  "Number host v =
     (case v of
        JUndefined \<Rightarrow> Some NaN
      | JNull \<Rightarrow> Some (Val 0)
      | JNum n \<Rightarrow> Some (Val n)
      | JObj r \<Rightarrow> Number_object host r
      | _ \<Rightarrow> Some (Number_primitive host v))"

text \<open>
  \<open>parseInt(v)\<close>: the host converts its argument to a string and reads an integer prefix.
  \<open>None\<close> when the conversion to a string throws.
\<close>

definition parseInt :: "'n host \<Rightarrow> 'n jsval \<Rightarrow> 'n jsnum option" where
  "parseInt host v =
     (case v of
        JObj r \<Rightarrow> parseInt_object host r
      | _ \<Rightarrow> Some (parseInt_primitive host v))"

text \<open>
  The array methods the code calls with a function that can throw: the first exception
  ends the walk and is the outcome of the call (\<open>None\<close>). \<open>find\<close> stops at the first
  member of which the function holds and does not look at the rest.
\<close>

fun array_map :: "('x \<Rightarrow> 'y option) \<Rightarrow> 'x list \<Rightarrow> 'y list option" where
  "array_map f [] = Some []"
| "array_map f (x # xs) =
     (case f x of
        None \<Rightarrow> None
      | Some y \<Rightarrow> (case array_map f xs of None \<Rightarrow> None | Some ys \<Rightarrow> Some (y # ys)))"

fun array_find :: "('a \<Rightarrow> bool option) \<Rightarrow> 'a list \<Rightarrow> 'a option option" where
  "array_find p [] = Some None"
| "array_find p (x # xs) =
     (case p x of
        None \<Rightarrow> None
      | Some True \<Rightarrow> Some (Some x)
      | Some False \<Rightarrow> array_find p xs)"

fun array_forEach :: "('a \<Rightarrow> 's \<Rightarrow> 's option) \<Rightarrow> 'a list \<Rightarrow> 's \<Rightarrow> 's option" where
  "array_forEach f [] s = Some s"
| "array_forEach f (x # xs) s =
     (case f x s of None \<Rightarrow> None | Some s' \<Rightarrow> array_forEach f xs s')"

section \<open>Entities\<close>

text \<open>
  A superhero as the JSON store has it. \<open>powerstats\<close> is \<open>None\<close> when the property is
  absent, \<open>null\<close> or not an object (reading one of the six statistics from it then gives
  \<open>undefined\<close>), and otherwise the object's properties; a property that is not there is
  not in the map.
\<close>

record 'n hero =
  hero_id :: "'n jsval"
  hero_name :: string
  image :: string
  powerstats :: "(string \<rightharpoonup> 'n jsval) option"

section \<open>Selection of two heroes (frontend/src/App.js)\<close>

text \<open>
  \<open>handleHeroSelection\<close>: the function passed to \<open>setSelectedHeroes\<close>, from the previous
  selection and the toggled hero to the next selection. In the last branch the selection
  has at least two members, so \<open>prev[1]\<close> is there.
\<close>

definition handleHeroSelection :: "'n hero list \<Rightarrow> 'n hero \<Rightarrow> 'n hero list" where
  "handleHeroSelection prev hero =
     (if find (\<lambda>h. hero_id h = hero_id hero) prev \<noteq> None then
        filter (\<lambda>h. hero_id h \<noteq> hero_id hero) prev
      else if length prev < 2 then
        prev @ [hero]
      else
        [prev ! 1, hero])"

text \<open>
  The two events that write the selection: a click on a hero's checkbox, and
  \<open>handleBackToTable\<close>, which sets it to the empty array.
\<close>

datatype 'n event = Toggle "'n hero" | Clear

fun step :: "'n hero list \<Rightarrow> 'n event \<Rightarrow> 'n hero list" where
  "step sel (Toggle hero) = handleHeroSelection sel hero"
| "step sel Clear = []"

text \<open>The selection after a sequence of events, from the initial state \<open>useState([])\<close>.\<close>

definition run :: "'n event list \<Rightarrow> 'n hero list" where
  "run evs = foldl step [] evs"

text \<open>\<open>handleCompare\<close> and the compare button act only on a selection of two.\<close>

definition comparison_eligible :: "'n hero list \<Rightarrow> bool" where
  "comparison_eligible sel = (length sel = 2)"

section \<open>Comparison in the frontend (frontend/src/App.js)\<close>

text \<open>
  \<open>getSafeStat\<close>. \<open>isNaN\<close> of a number is the test for \<open>NaN\<close>. The function has no
  \<open>try\<close>: an exception of \<open>parseInt\<close> is its outcome (\<open>None\<close>).
\<close>

definition getSafeStat :: "'n host \<Rightarrow> ('n::zero) hero \<Rightarrow> string \<Rightarrow> 'n jsnum option" where
  "getSafeStat host hero stat =
     (case powerstats hero of
        None \<Rightarrow> Some (Val 0)
      | Some ps \<Rightarrow>
          (case ps stat of
             None \<Rightarrow> Some (Val 0)
           | Some JNull \<Rightarrow> Some (Val 0)
           | Some JUndefined \<Rightarrow> Some (Val 0)
           | Some raw \<Rightarrow>
               (case parseInt host raw of
                  None \<Rightarrow> None
                | Some value \<Rightarrow> Some (if value = NaN then Val 0 else value))))"

definition stats :: "string list" where
  "stats = [''intelligence'', ''strength'', ''speed'', ''durability'', ''power'', ''combat'']"

text \<open>The body of the \<open>forEach\<close> in \<open>calculateWinner\<close>, on the two counters.\<close>

definition score_step ::
  "'n host \<Rightarrow> ('n::{linorder,zero}) hero \<Rightarrow> 'n hero \<Rightarrow> string \<Rightarrow>
   nat \<times> nat \<Rightarrow> (nat \<times> nat) option" where
  "score_step host hero1 hero2 stat sc =
     (case getSafeStat host hero1 stat of
        None \<Rightarrow> None
      | Some stat1 \<Rightarrow>
          (case getSafeStat host hero2 stat of
             None \<Rightarrow> None
           | Some stat2 \<Rightarrow>
               Some (if gt stat1 stat2 then (fst sc + 1, snd sc)
                     else if gt stat2 stat1 then (fst sc, snd sc + 1)
                     else sc)))"

text \<open>
  \<open>calculateWinner\<close>. The result's \<open>winner\<close> is one of the two heroes or \<open>null\<close>; its
  \<open>score\<close>, the string of two counters joined by a dash, is the pair of the counters.
\<close>

record 'n verdict =
  winner_hero :: "'n hero option"
  score :: "nat \<times> nat"

definition calculateWinner ::
  "'n host \<Rightarrow> ('n::{linorder,zero}) hero \<Rightarrow> 'n hero \<Rightarrow> 'n verdict option" where
  "calculateWinner host hero1 hero2 =
     (case array_forEach (score_step host hero1 hero2) stats (0, 0) of
        None \<Rightarrow> None
      | Some sc \<Rightarrow>
          (let hero1Score = fst sc;
               hero2Score = snd sc
           in Some (if hero1Score > hero2Score then
                      \<lparr>winner_hero = Some hero1, score = (hero1Score, hero2Score)\<rparr>
                    else if hero2Score > hero1Score then
                      \<lparr>winner_hero = Some hero2, score = (hero2Score, hero1Score)\<rparr>
                    else
                      \<lparr>winner_hero = None, score = (hero1Score, hero2Score)\<rparr>)))"

section \<open>Comparison in the backend (GET /api/superheroes/compare)\<close>

datatype winner = W1 | W2 | Tie

record 'n CategoryResult =
  name :: string
  winner :: winner
  id1_value :: "'n jsnum"
  id2_value :: "'n jsnum"

record 'n ComparisonResult =
  id1 :: "'n jsnum"
  id2 :: "'n jsnum"
  categories :: "'n CategoryResult list"
  overall_winner :: winner

definition categoriesOrder :: "string list" where
  "categoriesOrder =
     [''intelligence'', ''strength'', ''speed'', ''durability'', ''power'', ''combat'']"

text \<open>\<open>hero.powerstats?.[cat]\<close>: \<open>undefined\<close> when there is nothing to read.\<close>

definition powerstat :: "'n hero \<Rightarrow> string \<Rightarrow> 'n jsval" where
  "powerstat hero cat =
     (case powerstats hero of
        None \<Rightarrow> JUndefined
      | Some ps \<Rightarrow> (case ps cat of None \<Rightarrow> JUndefined | Some v \<Rightarrow> v))"

text \<open>The function mapped over \<open>categoriesOrder\<close>; \<open>None\<close> when a conversion throws.\<close>

definition category ::
  "'n host \<Rightarrow> ('n::{linorder,zero}) hero \<Rightarrow> 'n hero \<Rightarrow> string \<Rightarrow> 'n CategoryResult option" where
  "category host hero1 hero2 cat =
     (case Number host (powerstat hero1 cat) of
        None \<Rightarrow> None
      | Some v1 \<Rightarrow>
          (case Number host (powerstat hero2 cat) of
             None \<Rightarrow> None
           | Some v2 \<Rightarrow>
               Some \<lparr>name = cat,
                     winner = (if gt v1 v2 then W1 else if gt v2 v1 then W2 else Tie),
                     id1_value = v1,
                     id2_value = v2\<rparr>))"

text \<open>
  The handler from the two heroes found to the body of its 200 response:
  the comparison engine. \<open>None\<close> when the map over the categories throws.
\<close>

definition compare ::
  "'n host \<Rightarrow> 'n jsnum \<Rightarrow> 'n jsnum \<Rightarrow> ('n::{linorder,zero}) hero \<Rightarrow> 'n hero \<Rightarrow>
   'n ComparisonResult option" where
  "compare host id1Num id2Num hero1 hero2 =
     (case array_map (category host hero1 hero2) categoriesOrder of
        None \<Rightarrow> None
      | Some cats \<Rightarrow>
          (let hero1Wins = length (filter (\<lambda>c. winner c = W1) cats);
               hero2Wins = length (filter (\<lambda>c. winner c = W2) cats)
           in Some \<lparr>id1 = id1Num,
                     id2 = id2Num,
                     categories = cats,
                     overall_winner =
                       (if hero1Wins > hero2Wins then W1
                        else if hero2Wins > hero1Wins then W2 else Tie)\<rparr>))"

text \<open>
  The handler's outcomes: \<open>res.status(code).json({error, status})\<close>, \<open>res.json(result)\<close>,
  \<open>res.status(code).send(text)\<close>, and an exception before the \<open>try\<close>, with which the
  handler's promise rejects and nothing is sent.
\<close>

datatype 'n response =
  JsonError nat string string
| JsonResult "'n ComparisonResult"
| SendText nat string
| Rejected

text \<open>
  A query parameter is absent or a string. \<open>!id\<close> holds of an absent parameter and of the
  empty string.
\<close>

definition query_value :: "string option \<Rightarrow> 'n jsval" where
  "query_value q = (case q of None \<Rightarrow> JUndefined | Some s \<Rightarrow> JStr s)"

definition falsy :: "string option \<Rightarrow> bool" where
  "falsy q = (q = None \<or> q = Some [])"

text \<open>The function given to \<open>find\<close>: \<open>Number(h.id) === idNum\<close>.\<close>

definition id_is :: "'n host \<Rightarrow> 'n jsnum \<Rightarrow> ('n::zero) hero \<Rightarrow> bool option" where
  "id_is host idNum h =
     (case Number host (hero_id h) of None \<Rightarrow> None | Some n \<Rightarrow> Some (strict_eq n idNum))"

text \<open>
  The handler. \<open>loaded\<close> is what \<open>loadSuperheroes\<close> resolves to, \<open>None\<close> when it rejects
  or when what it resolves to is not a list of records, so that the search throws.
  Every exception inside the \<open>try\<close> (from \<open>loadSuperheroes\<close>, from the two searches,
  from the map over the categories) ends in the \<open>catch\<close>, which answers 500.
\<close>

definition compare_handler ::
  "'n host \<Rightarrow> ('n::{linorder,zero}) hero list option \<Rightarrow>
   string option \<Rightarrow> string option \<Rightarrow> 'n response" where
  "compare_handler host loaded q1 q2 =
     (case Number host (query_value q1) of
        None \<Rightarrow> Rejected
      | Some id1Num \<Rightarrow>
     (case Number host (query_value q2) of
        None \<Rightarrow> Rejected
      | Some id2Num \<Rightarrow>
          if falsy q1 \<or> falsy q2 then
            JsonError 400 ''Both id1 and id2 query parameters are required'' ''invalid_request''
          else if id1Num = NaN \<or> id2Num = NaN then
            JsonError 400 ''id1 and id2 must be valid numbers'' ''invalid_request''
          else
            (case loaded of
               None \<Rightarrow> SendText 500 ''Internal Server Error''
             | Some superheroes \<Rightarrow>
            (case array_find (id_is host id1Num) superheroes of
               None \<Rightarrow> SendText 500 ''Internal Server Error''
             | Some found1 \<Rightarrow>
            (case array_find (id_is host id2Num) superheroes of
               None \<Rightarrow> SendText 500 ''Internal Server Error''
             | Some found2 \<Rightarrow>
            (case (found1, found2) of
               (Some hero1, Some hero2) \<Rightarrow>
                 (case compare host id1Num id2Num hero1 hero2 of
                    None \<Rightarrow> SendText 500 ''Internal Server Error''
                  | Some result \<Rightarrow> JsonResult result)
             | _ \<Rightarrow>
                 JsonError 400 ''One or both superheroes not found'' ''invalid_request''))))))"

section \<open>Notions the properties are stated with\<close>

text \<open>The selection invariant: at most two heroes, no id twice.\<close>

definition selection_ok :: "'n hero list \<Rightarrow> bool" where
  "selection_ok sel = (length sel \<le> 2 \<and> distinct (map hero_id sel))"

text \<open>The mirror image of a comparison: sides 1 and 2 exchanged, ties kept.\<close>

fun flip_winner :: "winner \<Rightarrow> winner" where
  "flip_winner W1 = W2"
| "flip_winner W2 = W1"
| "flip_winner Tie = Tie"

definition mirror_category :: "'n CategoryResult \<Rightarrow> 'n CategoryResult" where
  "mirror_category c =
     \<lparr>name = name c, winner = flip_winner (winner c),
      id1_value = id2_value c, id2_value = id1_value c\<rparr>"

definition mirror :: "'n ComparisonResult \<Rightarrow> 'n ComparisonResult" where
  "mirror r =
     \<lparr>id1 = id2 r, id2 = id1 r, categories = map mirror_category (categories r),
      overall_winner = flip_winner (overall_winner r)\<rparr>"

text \<open>The number of categories of a result that a side has won.\<close>

definition wins :: "winner \<Rightarrow> 'n ComparisonResult \<Rightarrow> nat" where
  "wins w r = length (filter (\<lambda>c. winner c = w) (categories r))"

text \<open>
  The number of statistics in which the safe read of \<open>X\<close> is there and is greater than
  that of \<open>Y\<close>.
\<close>

definition safe_gt :: "'n host \<Rightarrow> ('n::{linorder,zero}) hero \<Rightarrow> 'n hero \<Rightarrow> string \<Rightarrow> bool" where
  "safe_gt host X Y stat =
     (case (getSafeStat host X stat, getSafeStat host Y stat) of
        (Some a, Some b) \<Rightarrow> gt a b
      | _ \<Rightarrow> False)"

definition stat_wins :: "'n host \<Rightarrow> ('n::{linorder,zero}) hero \<Rightarrow> 'n hero \<Rightarrow> nat" where
  "stat_wins host X Y = length (filter (safe_gt host X Y) stats)"

text \<open>No conversion of one of the six statistics of the hero throws.\<close>

definition convertible :: "'n host \<Rightarrow> ('n::zero) hero \<Rightarrow> bool" where
  "convertible host X = list_all (\<lambda>cat. Number host (powerstat X cat) \<noteq> None) categoriesOrder"

section \<open>Concrete records and a concrete host\<close>

text \<open>
  An instance of the host's conversions over integers, for evaluating the model at
  concrete records. On primitives it reads a string of decimal digits as ECMAScript does
  (for \<open>Number\<close> the empty string is 0; \<open>parseInt\<close> reads the longest prefix of digits) and
  gives \<open>NaN\<close> on every other string, which is ECMAScript's answer for the strings the
  examples use (\<open>abc\<close>, \<open>invalid\<close>). Of the objects, the reference 0 is an object parsed
  from \<open>{"toString": 0}\<close>, on which both conversions throw; every other reference is a
  plain object such as \<open>{}\<close>, which both conversions read as \<open>NaN\<close>. The general
  theorems hold for every host and do not use this one.
\<close>

definition is_digit :: "char \<Rightarrow> bool" where
  "is_digit c = (c \<in> set ''0123456789'')"

primrec decimal :: "string \<Rightarrow> int \<Rightarrow> int" where
  "decimal [] acc = acc"
| "decimal (c # cs) acc = decimal cs (10 * acc + (int (of_char c) - 48))"

definition Number_decimal :: "int jsval \<Rightarrow> int jsnum" where
  "Number_decimal v =
     (case v of
        JStr s \<Rightarrow> if list_all is_digit s then Val (decimal s 0) else NaN
      | JBool b \<Rightarrow> Val (if b then 1 else 0)
      | _ \<Rightarrow> NaN)"

definition parseInt_decimal :: "int jsval \<Rightarrow> int jsnum" where
  "parseInt_decimal v =
     (case v of
        JStr s \<Rightarrow>
          (let ds = takeWhile is_digit s in if ds = [] then NaN else Val (decimal ds 0))
      | JNum n \<Rightarrow> Val n
      | _ \<Rightarrow> NaN)"

definition object_decimal :: "nat \<Rightarrow> int jsnum option" where
  "object_decimal r = (if r = 0 then None else Some NaN)"

definition host_decimal :: "int host" where
  "host_decimal =
     \<lparr>Number_primitive = Number_decimal, Number_object = object_decimal,
      parseInt_primitive = parseInt_decimal, parseInt_object = object_decimal\<rparr>"

text \<open>
  Hero A and Hero B of frontend/tests/error-handling.spec.ts, as they are after
  \<open>JSON.stringify\<close> (which drops the property \<open>power: undefined\<close> of Hero A), a
  record with no \<open>powerstats\<close> at all, as the same file has one, under the id 3, and a
  record whose \<open>strength\<close> is the object \<open>{"toString": 0}\<close>.
\<close>

definition hero_A :: "int hero" where
  "hero_A =
     \<lparr>hero_id = JNum 1, hero_name = ''Hero A'', image = ''test1.jpg'',
      powerstats = Some [''intelligence'' \<mapsto> JNull, ''strength'' \<mapsto> JNum 0,
        ''speed'' \<mapsto> JNum (- 5), ''durability'' \<mapsto> JStr ''invalid'',
        ''combat'' \<mapsto> JNum 50]\<rparr>"

definition hero_B :: "int hero" where
  "hero_B =
     \<lparr>hero_id = JNum 2, hero_name = ''Hero B'', image = ''test2.jpg'',
      powerstats = Some [''intelligence'' \<mapsto> JNum 100, ''strength'' \<mapsto> JNum 75,
        ''speed'' \<mapsto> JNum 60, ''durability'' \<mapsto> JNum 80, ''power'' \<mapsto> JNum 90,
        ''combat'' \<mapsto> JNum 85]\<rparr>"

definition hero_no_stats :: "int hero" where
  "hero_no_stats =
     \<lparr>hero_id = JNum 3, hero_name = ''Hero With No Stats'', image = ''test.jpg'',
      powerstats = None\<rparr>"

definition hero_odd :: "int hero" where
  "hero_odd =
     \<lparr>hero_id = JNum 4, hero_name = ''Hero With Odd Stats'', image = ''test.jpg'',
      powerstats = Some [''intelligence'' \<mapsto> JNum 10, ''strength'' \<mapsto> JObj 0]\<rparr>"

section \<open>Numbers\<close>

lemma gt_asym: "gt a b \<Longrightarrow> \<not> gt b a"
  by (cases a; cases b) auto

lemma gt_irrefl: "\<not> gt a a"
  by (cases a) auto

lemma gt_NaN_right: "\<not> gt a NaN"
  by (cases a) simp_all

lemma strict_eq_NaN: "strict_eq a b \<Longrightarrow> b \<noteq> NaN"
  by (cases a; cases b) auto

lemma Number_undefined: "Number host JUndefined = Some NaN"
  by (simp add: Number_def)

lemma Number_null: "Number host JNull = Some (Val 0)"
  by (simp add: Number_def)

text \<open>The conversion of a query parameter does not throw.\<close>

lemma Number_query:
  "Number host (query_value q) =
     Some (case q of None \<Rightarrow> NaN | Some s \<Rightarrow> Number_primitive host (JStr s))"
  by (simp add: Number_def query_value_def split: option.splits)

section \<open>Walks over arrays\<close>

lemma array_map_all2:
  "array_map f xs = Some ys \<Longrightarrow> list_all2 (\<lambda>x y. f x = Some y) xs ys"
  by (induction xs arbitrary: ys) (auto split: option.splits)

lemma all2_array_map:
  "list_all2 (\<lambda>x y. f x = Some y) xs ys \<Longrightarrow> array_map f xs = Some ys"
  by (induction xs ys rule: list_all2_induct) auto

lemma array_map_Some:
  "(array_map f xs = Some ys) = (list_all2 (\<lambda>x y. f x = Some y) xs ys)"
  by (blast intro: array_map_all2 all2_array_map)

lemma array_map_None: "(array_map f xs = None) = (\<exists>x \<in> set xs. f x = None)"
  by (induction xs) (auto split: option.splits)

lemma array_map_length: "array_map f xs = Some ys \<Longrightarrow> length ys = length xs"
  by (auto simp: array_map_Some dest: list_all2_lengthD)

lemma array_map_member:
  "array_map f xs = Some ys \<Longrightarrow> y \<in> set ys \<Longrightarrow> \<exists>x \<in> set xs. f x = Some y"
  unfolding array_map_Some
  by (induction xs ys rule: list_all2_induct) auto

section \<open>The selection\<close>

lemma found_iff: "(find (\<lambda>h. hero_id h = i) prev = None) = (i \<notin> hero_id ` set prev)"
  by (auto simp: find_None_iff)

text \<open>The three branches of \<open>handleHeroSelection\<close>.\<close>

lemma toggle_present:
  "hero_id hero \<in> hero_id ` set prev \<Longrightarrow>
   handleHeroSelection prev hero = filter (\<lambda>h. hero_id h \<noteq> hero_id hero) prev"
  unfolding handleHeroSelection_def found_iff by simp

lemma toggle_absent_short:
  "hero_id hero \<notin> hero_id ` set prev \<Longrightarrow> length prev < 2 \<Longrightarrow>
   handleHeroSelection prev hero = prev @ [hero]"
  unfolding handleHeroSelection_def found_iff by simp

lemma toggle_absent_full:
  "hero_id hero \<notin> hero_id ` set prev \<Longrightarrow> \<not> length prev < 2 \<Longrightarrow>
   handleHeroSelection prev hero = [prev ! 1, hero]"
  unfolding handleHeroSelection_def found_iff by simp

lemma handleHeroSelection_ok:
  assumes "selection_ok prev"
  shows "selection_ok (handleHeroSelection prev hero)"
proof (cases "hero_id hero \<in> hero_id ` set prev")
  case True
  have "length (filter (\<lambda>h. hero_id h \<noteq> hero_id hero) prev) \<le> 2"
    using assms by (auto simp: selection_ok_def intro: order_trans [OF length_filter_le])
  moreover have "distinct (map hero_id (filter (\<lambda>h. hero_id h \<noteq> hero_id hero) prev))"
    using assms by (simp add: selection_ok_def distinct_map_filter)
  ultimately show ?thesis
    by (simp add: toggle_present [OF True] selection_ok_def)
next
  case False
  show ?thesis
  proof (cases "length prev < 2")
    case True
    with False assms show ?thesis
      by (simp add: toggle_absent_short selection_ok_def)
  next
    case long: False
    then have "prev ! 1 \<in> set prev" by simp
    with False have "hero_id (prev ! 1) \<noteq> hero_id hero" by (metis image_eqI)
    then show ?thesis
      by (simp add: toggle_absent_full [OF False long] selection_ok_def)
  qed
qed

lemma step_ok: "selection_ok sel \<Longrightarrow> selection_ok (step sel ev)"
  by (cases ev) (simp_all add: handleHeroSelection_ok, simp add: selection_ok_def)

lemma foldl_step_ok: "selection_ok sel \<Longrightarrow> selection_ok (foldl step sel evs)"
  by (induction evs arbitrary: sel) (simp_all add: step_ok)

text \<open>
  C4. Starting from the empty selection, after any sequence of toggle and clear events
  the selection holds at most two heroes, and no two of them have the same id.
\<close>

theorem selection_invariant:
  "length (run evs) \<le> 2 \<and> distinct (map hero_id (run evs))"
proof -
  have "selection_ok ([] :: 'a hero list)" by (simp add: selection_ok_def)
  then have "selection_ok (run evs)" unfolding run_def by (rule foldl_step_ok)
  then show ?thesis by (simp add: selection_ok_def)
qed

text \<open>
  C5. When the selection holds two heroes and the toggled hero's id is not among them,
  the result is the second member followed by the new hero: the member at index 0 is
  gone, the new one is last, the size is still two. In particular, from the empty
  selection, toggling three heroes X, Y, Z with three different ids gives [Y, Z].
\<close>

theorem sliding_window_eviction:
  "(length prev = 2 \<and> hero_id hero \<notin> hero_id ` set prev \<longrightarrow>
      handleHeroSelection prev hero = [prev ! 1, hero] \<and>
      handleHeroSelection prev hero = tl prev @ [hero] \<and>
      length (handleHeroSelection prev hero) = 2) \<and>
   (hero_id X \<noteq> hero_id Y \<and> hero_id X \<noteq> hero_id Z \<and> hero_id Y \<noteq> hero_id Z \<longrightarrow>
      run [Toggle X, Toggle Y, Toggle Z] = [Y, Z])"
proof (intro conjI impI)
  assume h: "length prev = 2 \<and> hero_id hero \<notin> hero_id ` set prev"
  then obtain a b where ab: "prev = [a, b]"
    by (cases prev; cases "tl prev") auto
  from h show full: "handleHeroSelection prev hero = [prev ! 1, hero]"
    by (simp add: toggle_absent_full)
  then show "handleHeroSelection prev hero = tl prev @ [hero]"
    by (simp add: ab)
  from full show "length (handleHeroSelection prev hero) = 2"
    by simp
next
  assume d: "hero_id X \<noteq> hero_id Y \<and> hero_id X \<noteq> hero_id Z \<and> hero_id Y \<noteq> hero_id Z"
  have 1: "handleHeroSelection [] X = [X]"
    by (simp add: toggle_absent_short)
  from d have "hero_id Y \<notin> hero_id ` set [X]" by auto
  then have 2: "handleHeroSelection [X] Y = [X, Y]"
    by (simp add: toggle_absent_short)
  from d have "hero_id Z \<notin> hero_id ` set [X, Y]" by auto
  then have 3: "handleHeroSelection [X, Y] Z = [Y, Z]"
    by (simp add: toggle_absent_full)
  show "run [Toggle X, Toggle Y, Toggle Z] = [Y, Z]"
    by (simp add: run_def 1 2 3)
qed

theorem sliding_window_eviction_witness:
  "length [hero_A, hero_B] = 2 \<and> hero_id hero_no_stats \<notin> hero_id ` set [hero_A, hero_B] \<and>
   handleHeroSelection [hero_A, hero_B] hero_no_stats = [hero_B, hero_no_stats] \<and>
   run [Toggle hero_A, Toggle hero_B, Toggle hero_no_stats] = [hero_B, hero_no_stats]"
  using sliding_window_eviction [of "[hero_A, hero_B]" hero_no_stats hero_A hero_B hero_no_stats]
  by (simp add: hero_A_def hero_B_def hero_no_stats_def)

lemma length_filter_distinct_id:
  "distinct (map hero_id sel) \<Longrightarrow> hero_id hero \<in> hero_id ` set sel \<Longrightarrow>
   Suc (length (filter (\<lambda>h. hero_id h \<noteq> hero_id hero) sel)) = length sel"
proof (induction sel)
  case Nil
  then show ?case by simp
next
  case (Cons a sel)
  show ?case
  proof (cases "hero_id a = hero_id hero")
    case True
    with Cons.prems have "hero_id hero \<notin> hero_id ` set sel" by auto
    then have "filter (\<lambda>h. hero_id h \<noteq> hero_id hero) sel = sel"
      by (force simp: filter_id_conv)
    with True show ?thesis by simp
  next
    case False
    with Cons show ?thesis by auto
  qed
qed

text \<open>
  C10. In a selection (at most two heroes, no id twice), toggling a hero whose id is
  present removes the member with that id, so the size goes down by one; toggling the
  same hero again appends it at the end. A toggle makes the selection smaller only in
  that case: when the id is not present the selection grows or keeps its size. The
  other way to a smaller selection is the clear event, which empties it.
\<close>

theorem toggle_removes_then_readds:
  assumes "length sel \<le> 2" and "distinct (map hero_id sel)"
  shows "(hero_id hero \<in> hero_id ` set sel \<longrightarrow>
            handleHeroSelection sel hero = filter (\<lambda>h. hero_id h \<noteq> hero_id hero) sel \<and>
            Suc (length (handleHeroSelection sel hero)) = length sel \<and>
            hero_id hero \<notin> hero_id ` set (handleHeroSelection sel hero) \<and>
            handleHeroSelection (handleHeroSelection sel hero) hero =
              handleHeroSelection sel hero @ [hero]) \<and>
         (length (handleHeroSelection sel hero) < length sel \<longrightarrow>
            hero_id hero \<in> hero_id ` set sel) \<and>
         step sel Clear = []"
proof (intro conjI impI)
  assume mem: "hero_id hero \<in> hero_id ` set sel"
  let ?rest = "filter (\<lambda>h. hero_id h \<noteq> hero_id hero) sel"
  show eq: "handleHeroSelection sel hero = ?rest"
    using mem by (rule toggle_present)
  show len: "Suc (length (handleHeroSelection sel hero)) = length sel"
    using assms(2) mem by (simp add: eq length_filter_distinct_id)
  show gone: "hero_id hero \<notin> hero_id ` set (handleHeroSelection sel hero)"
    by (auto simp: eq)
  from len assms(1) have "length (handleHeroSelection sel hero) < 2" by simp
  with gone show "handleHeroSelection (handleHeroSelection sel hero) hero =
              handleHeroSelection sel hero @ [hero]"
    by (rule toggle_absent_short)
next
  assume less: "length (handleHeroSelection sel hero) < length sel"
  show "hero_id hero \<in> hero_id ` set sel"
  proof (rule ccontr)
    assume absent: "hero_id hero \<notin> hero_id ` set sel"
    show False
    proof (cases "length sel < 2")
      case True
      with absent less show False by (simp add: toggle_absent_short)
    next
      case False
      with absent less assms(1) show False by (simp add: toggle_absent_full)
    qed
  qed
next
  show "step sel Clear = []" by simp
qed

theorem toggle_removes_then_readds_witness:
  "length [hero_A, hero_B] \<le> 2 \<and> distinct (map hero_id [hero_A, hero_B]) \<and>
   hero_id hero_A \<in> hero_id ` set [hero_A, hero_B] \<and>
   handleHeroSelection [hero_A, hero_B] hero_A = [hero_B] \<and>
   handleHeroSelection [hero_B] hero_A = [hero_B, hero_A]"
proof -
  have ids: "hero_id hero_A = JNum 1" "hero_id hero_B = JNum 2"
    by (simp_all add: hero_A_def hero_B_def)
  have small: "length [hero_A, hero_B] \<le> 2" by simp
  have dist: "distinct (map hero_id [hero_A, hero_B])" by (simp add: ids)
  have mem: "hero_id hero_A \<in> hero_id ` set [hero_A, hero_B]" by simp
  have rest: "filter (\<lambda>h. hero_id h \<noteq> hero_id hero_A) [hero_A, hero_B] = [hero_B]"
    by (simp add: ids)
  from toggle_removes_then_readds [OF small dist, of hero_A] mem
  have removed: "handleHeroSelection [hero_A, hero_B] hero_A =
      filter (\<lambda>h. hero_id h \<noteq> hero_id hero_A) [hero_A, hero_B]"
    and readded: "handleHeroSelection (handleHeroSelection [hero_A, hero_B] hero_A) hero_A =
      handleHeroSelection [hero_A, hero_B] hero_A @ [hero_A]"
    by blast+
  from removed rest have first: "handleHeroSelection [hero_A, hero_B] hero_A = [hero_B]"
    by (rule trans)
  from readded have "handleHeroSelection [hero_B] hero_A = [hero_B, hero_A]"
    unfolding first by simp
  with small dist mem first show ?thesis by blast
qed

section \<open>The comparison\<close>

lemma compare_categories:
  "compare host i j A B = Some r \<Longrightarrow>
   array_map (category host A B) categoriesOrder = Some (categories r)"
  by (auto simp: compare_def Let_def split: option.splits)

lemma category_None:
  "(category host A B cat = None) =
     (Number host (powerstat A cat) = None \<or> Number host (powerstat B cat) = None)"
  by (auto simp: category_def split: option.splits)

lemma name_category: "category host A B cat = Some c \<Longrightarrow> name c = cat"
  by (auto simp: category_def split: option.splits)

lemma names_categories:
  "list_all2 (\<lambda>cat c. category host A B cat = Some c) cats cs \<Longrightarrow> map name cs = cats"
  by (induction cats cs rule: list_all2_induct) (auto dest: name_category)

lemma compare_None:
  "(compare host i j A B = None) = (\<not> (convertible host A \<and> convertible host B))"
proof -
  have "(compare host i j A B = None) =
          (array_map (category host A B) categoriesOrder = None)"
    by (simp add: compare_def Let_def split: option.splits)
  also have "\<dots> = (\<exists>cat \<in> set categoriesOrder. category host A B cat = None)"
    by (rule array_map_None)
  also have "\<dots> = (\<not> (convertible host A \<and> convertible host B))"
    by (auto simp: category_None convertible_def list_all_iff)
  finally show ?thesis .
qed

lemma primitive_convertible: "\<forall>cat r. powerstat X cat \<noteq> JObj r \<Longrightarrow> convertible host X"
  by (auto simp: convertible_def list_all_iff Number_def split: jsval.splits)

subsection \<open>The safe read of the frontend\<close>

text \<open>
  When \<open>parseInt\<close> does not throw, \<open>getSafeStat\<close> is 0 when the raw value is absent,
  \<open>null\<close> or is not parsed to a number, and the parsed number otherwise; it is never
  \<open>NaN\<close>.
\<close>

lemma getSafeStat_read:
  "getSafeStat host hero stat =
     (if powerstat hero stat = JUndefined \<or> powerstat hero stat = JNull then Some (Val 0)
      else (case parseInt host (powerstat hero stat) of
              None \<Rightarrow> None
            | Some value \<Rightarrow> Some (if value = NaN then Val 0 else value)))"
  by (auto simp: getSafeStat_def powerstat_def split: option.splits jsval.splits)

lemma getSafeStat_not_NaN: "getSafeStat host hero stat \<noteq> Some NaN"
  by (auto simp: getSafeStat_read split: option.splits)

subsection \<open>The backend's read, at the records of the frontend's test\<close>

lemma compare_A_B:
  "compare host_decimal (Val 1) (Val 2) hero_A hero_B =
  Some \<lparr>id1 = Val 1, id2 = Val 2, categories = [
    \<lparr>name = ''intelligence'', winner = W2, id1_value = Val 0, id2_value = Val 100\<rparr>,
    \<lparr>name = ''strength'', winner = W2, id1_value = Val 0, id2_value = Val 75\<rparr>,
    \<lparr>name = ''speed'', winner = W2, id1_value = Val (- 5), id2_value = Val 60\<rparr>,
    \<lparr>name = ''durability'', winner = Tie, id1_value = NaN, id2_value = Val 80\<rparr>,
    \<lparr>name = ''power'', winner = Tie, id1_value = NaN, id2_value = Val 90\<rparr>,
    \<lparr>name = ''combat'', winner = W2, id1_value = Val 50, id2_value = Val 85\<rparr>],
   overall_winner = W2\<rparr>"
  by (simp add: compare_def categoriesOrder_def category_def powerstat_def hero_A_def hero_B_def
      Number_def host_decimal_def Number_decimal_def is_digit_def)

text \<open>
  C1. The safe read takes a raw value that is absent, \<open>null\<close> or not numeric as 0.
  \<open>getSafeStat\<close> does; the backend's categories do not. For Hero A and Hero B of
  frontend/tests/error-handling.spec.ts, \<open>getSafeStat\<close> reads Hero A's \<open>durability\<close>
  (\<open>"invalid"\<close>) and \<open>power\<close> (absent) as 0, so that Hero B wins all six statistics,
  6 to 0. The backend reports \<open>NaN\<close> for both values and a tie in both categories,
  whatever Hero B has there (80 and 90): Hero B wins four categories, not six.
\<close>

theorem backend_read_is_not_safe:
  "compare_handler host_decimal (Some [hero_A, hero_B]) (Some ''1'') (Some ''2'') =
     JsonResult
       \<lparr>id1 = Val 1, id2 = Val 2, categories = [
          \<lparr>name = ''intelligence'', winner = W2, id1_value = Val 0, id2_value = Val 100\<rparr>,
          \<lparr>name = ''strength'', winner = W2, id1_value = Val 0, id2_value = Val 75\<rparr>,
          \<lparr>name = ''speed'', winner = W2, id1_value = Val (- 5), id2_value = Val 60\<rparr>,
          \<lparr>name = ''durability'', winner = Tie, id1_value = NaN, id2_value = Val 80\<rparr>,
          \<lparr>name = ''power'', winner = Tie, id1_value = NaN, id2_value = Val 90\<rparr>,
          \<lparr>name = ''combat'', winner = W2, id1_value = Val 50, id2_value = Val 85\<rparr>],
        overall_winner = W2\<rparr> \<and>
   map (getSafeStat host_decimal hero_A) stats =
     [Some (Val 0), Some (Val 0), Some (Val (- 5)), Some (Val 0), Some (Val 0), Some (Val 50)] \<and>
   map (getSafeStat host_decimal hero_B) stats =
     [Some (Val 100), Some (Val 75), Some (Val 60), Some (Val 80), Some (Val 90), Some (Val 85)] \<and>
   calculateWinner host_decimal hero_A hero_B =
     Some \<lparr>winner_hero = Some hero_B, score = (6, 0)\<rparr>"
proof -
  have "compare_handler host_decimal (Some [hero_A, hero_B]) (Some ''1'') (Some ''2'') =
      (case compare host_decimal (Val 1) (Val 2) hero_A hero_B of
         None \<Rightarrow> SendText 500 ''Internal Server Error''
       | Some result \<Rightarrow> JsonResult result)"
    by (simp add: compare_handler_def id_is_def query_value_def falsy_def Number_def
        host_decimal_def Number_decimal_def is_digit_def hero_A_def hero_B_def)
  then have "compare_handler host_decimal (Some [hero_A, hero_B]) (Some ''1'') (Some ''2'') =
      JsonResult
       \<lparr>id1 = Val 1, id2 = Val 2, categories = [
          \<lparr>name = ''intelligence'', winner = W2, id1_value = Val 0, id2_value = Val 100\<rparr>,
          \<lparr>name = ''strength'', winner = W2, id1_value = Val 0, id2_value = Val 75\<rparr>,
          \<lparr>name = ''speed'', winner = W2, id1_value = Val (- 5), id2_value = Val 60\<rparr>,
          \<lparr>name = ''durability'', winner = Tie, id1_value = NaN, id2_value = Val 80\<rparr>,
          \<lparr>name = ''power'', winner = Tie, id1_value = NaN, id2_value = Val 90\<rparr>,
          \<lparr>name = ''combat'', winner = W2, id1_value = Val 50, id2_value = Val 85\<rparr>],
        overall_winner = W2\<rparr>"
    by (simp only: compare_A_B option.case)
  moreover have "map (getSafeStat host_decimal hero_A) stats =
     [Some (Val 0), Some (Val 0), Some (Val (- 5)), Some (Val 0), Some (Val 0), Some (Val 50)]"
    by (simp add: stats_def getSafeStat_def parseInt_def hero_A_def host_decimal_def
        parseInt_decimal_def is_digit_def)
  moreover have "map (getSafeStat host_decimal hero_B) stats =
     [Some (Val 100), Some (Val 75), Some (Val 60), Some (Val 80), Some (Val 90), Some (Val 85)]"
    by (simp add: stats_def getSafeStat_def parseInt_def hero_B_def host_decimal_def
        parseInt_decimal_def)
  moreover have "calculateWinner host_decimal hero_A hero_B =
     Some \<lparr>winner_hero = Some hero_B, score = (6, 0)\<rparr>"
    by (simp add: calculateWinner_def stats_def score_step_def getSafeStat_def parseInt_def
        hero_A_def hero_B_def host_decimal_def parseInt_decimal_def is_digit_def)
  ultimately show ?thesis
    by (simp only: simp_thms)
qed

text \<open>
  C3. In the result of the backend, each category reports the two results of \<open>Number\<close>
  on the raw values. A value that is absent is reported as \<open>NaN\<close>, which is not 0, and a
  category in which either reported value is \<open>NaN\<close> is a tie, whatever the other value is.
\<close>

theorem nan_category_is_tie:
  assumes "compare host i j A B = Some r"
  shows "\<forall>c \<in> set (categories r).
     Number host (powerstat A (name c)) = Some (id1_value c) \<and>
     Number host (powerstat B (name c)) = Some (id2_value c) \<and>
     (id1_value c = NaN \<or> id2_value c = NaN \<longrightarrow> winner c = Tie) \<and>
     (powerstat A (name c) = JUndefined \<longrightarrow> id1_value c = NaN \<and> id1_value c \<noteq> Val 0) \<and>
     (powerstat B (name c) = JUndefined \<longrightarrow> id2_value c = NaN \<and> id2_value c \<noteq> Val 0)"
proof
  fix c
  assume "c \<in> set (categories r)"
  with compare_categories [OF assms] obtain cat where c: "category host A B cat = Some c"
    by (blast dest: array_map_member)
  then have cat: "name c = cat" by (rule name_category)
  from c show "Number host (powerstat A (name c)) = Some (id1_value c) \<and>
     Number host (powerstat B (name c)) = Some (id2_value c) \<and>
     (id1_value c = NaN \<or> id2_value c = NaN \<longrightarrow> winner c = Tie) \<and>
     (powerstat A (name c) = JUndefined \<longrightarrow> id1_value c = NaN \<and> id1_value c \<noteq> Val 0) \<and>
     (powerstat B (name c) = JUndefined \<longrightarrow> id2_value c = NaN \<and> id2_value c \<noteq> Val 0)"
    unfolding cat
    by (auto simp: category_def gt_NaN_right Number_undefined split: option.splits)
qed

theorem nan_category_is_tie_witness:
  "compare host_decimal (Val 3) (Val 2) hero_no_stats hero_B \<noteq> None \<and>
   categories (the (compare host_decimal (Val 3) (Val 2) hero_no_stats hero_B)) ! 1 =
     \<lparr>name = ''strength'', winner = Tie, id1_value = NaN, id2_value = Val 75\<rparr> \<and>
   powerstat hero_no_stats ''strength'' = JUndefined"
proof -
  have r: "compare host_decimal (Val 3) (Val 2) hero_no_stats hero_B =
    Some \<lparr>id1 = Val 3, id2 = Val 2, categories = [
      \<lparr>name = ''intelligence'', winner = Tie, id1_value = NaN, id2_value = Val 100\<rparr>,
      \<lparr>name = ''strength'', winner = Tie, id1_value = NaN, id2_value = Val 75\<rparr>,
      \<lparr>name = ''speed'', winner = Tie, id1_value = NaN, id2_value = Val 60\<rparr>,
      \<lparr>name = ''durability'', winner = Tie, id1_value = NaN, id2_value = Val 80\<rparr>,
      \<lparr>name = ''power'', winner = Tie, id1_value = NaN, id2_value = Val 90\<rparr>,
      \<lparr>name = ''combat'', winner = Tie, id1_value = NaN, id2_value = Val 85\<rparr>],
     overall_winner = Tie\<rparr>"
    by (simp add: compare_def categoriesOrder_def category_def powerstat_def hero_no_stats_def
        hero_B_def Number_def)
  have absent: "powerstat hero_no_stats ''strength'' = JUndefined"
    by (simp add: powerstat_def hero_no_stats_def)
  from nan_category_is_tie [OF r] r absent show ?thesis
    by simp
qed

subsection \<open>Mirror symmetry\<close>

lemma category_swap:
  "category host B A cat = map_option mirror_category (category host A B cat)"
  by (auto simp: category_def mirror_category_def split: option.splits dest: gt_asym)

lemma wins_mirror:
  "length (filter (\<lambda>c. winner c = W1) (map mirror_category cs)) =
     length (filter (\<lambda>c. winner c = W2) cs)"
  "length (filter (\<lambda>c. winner c = W2) (map mirror_category cs)) =
     length (filter (\<lambda>c. winner c = W1) cs)"
  by (induction cs) (auto simp: mirror_category_def elim: flip_winner.elims)

lemma array_map_map_option:
  "array_map (\<lambda>x. map_option g (f x)) xs = map_option (map g) (array_map f xs)"
  by (induction xs) (auto split: option.splits)

lemma categories_swap:
  "array_map (category host B A) cats =
     map_option (map mirror_category) (array_map (category host A B) cats)"
proof -
  have "category host B A = (\<lambda>cat. map_option mirror_category (category host A B cat))"
    by (rule ext) (rule category_swap)
  then show ?thesis
    by (simp only: array_map_map_option)
qed

lemma compare_swap: "compare host j i B A = map_option mirror (compare host i j A B)"
proof (cases "array_map (category host A B) categoriesOrder")
  case None
  then have "array_map (category host B A) categoriesOrder = None"
    by (simp add: categories_swap [of host B A])
  with None show ?thesis by (simp add: compare_def)
next
  case (Some cs)
  let ?n1 = "length (filter (\<lambda>c. winner c = W1) cs)"
  let ?n2 = "length (filter (\<lambda>c. winner c = W2) cs)"
  have swapped: "array_map (category host B A) categoriesOrder = Some (map mirror_category cs)"
    by (simp add: categories_swap [of host B A] Some)
  have "compare host j i B A =
          Some \<lparr>id1 = j, id2 = i, categories = map mirror_category cs,
           overall_winner = (if ?n2 > ?n1 then W1 else if ?n1 > ?n2 then W2 else Tie)\<rparr>"
    unfolding compare_def swapped option.case Let_def wins_mirror by (rule refl)
  moreover have "compare host i j A B =
          Some \<lparr>id1 = i, id2 = j, categories = cs,
           overall_winner = (if ?n1 > ?n2 then W1 else if ?n2 > ?n1 then W2 else Tie)\<rparr>"
    unfolding compare_def Some option.case Let_def by (rule refl)
  ultimately show ?thesis
    by (simp add: mirror_def)
qed

lemma score_step_swap:
  "score_step host B A x (prod.swap sc) = map_option prod.swap (score_step host A B x sc)"
  by (auto simp: score_step_def split: option.splits dest: gt_asym)

lemma forEach_score_swap:
  "array_forEach (score_step host B A) xs (prod.swap sc) =
     map_option prod.swap (array_forEach (score_step host A B) xs sc)"
proof (induction xs arbitrary: sc)
  case Nil
  show ?case by simp
next
  case (Cons x xs)
  show ?case
  proof (cases "score_step host A B x sc")
    case None
    then have "score_step host B A x (prod.swap sc) = None"
      by (simp add: score_step_swap [of host B A])
    with None show ?thesis by simp
  next
    case (Some sc')
    then have "score_step host B A x (prod.swap sc) = Some (prod.swap sc')"
      by (simp add: score_step_swap [of host B A])
    with Some show ?thesis by (simp add: Cons.IH)
  qed
qed

lemma calculateWinner_swap: "calculateWinner host B A = calculateWinner host A B"
proof (cases "array_forEach (score_step host A B) stats (0, 0)")
  case None
  then have "array_forEach (score_step host B A) stats (0, 0) = None"
    using forEach_score_swap [of host B A stats "(0, 0)"] by simp
  with None show ?thesis by (simp add: calculateWinner_def)
next
  case (Some sc)
  obtain a b where ab: "sc = (a, b)" by (cases sc)
  have "array_forEach (score_step host B A) stats (0, 0) = Some (b, a)"
    using forEach_score_swap [of host B A stats "(0, 0)"] by (simp add: Some ab)
  with Some ab show ?thesis
    by (auto simp: calculateWinner_def Let_def)
qed

text \<open>
  C6. The comparison of B with A is the mirror image of the comparison of A with B:
  the two ids and the two values of every category change places, every category
  winner and the overall winner change sides, ties stay ties; when one of the two
  throws, so does the other. In the frontend, where the verdict names the winning hero
  and gives the winner's count first, the two verdicts are the same.
\<close>

theorem mirror_symmetry:
  "compare host j i B A = map_option mirror (compare host i j A B) \<and>
   calculateWinner host B A = calculateWinner host A B"
  by (rule conjI [OF compare_swap calculateWinner_swap])

subsection \<open>Categories and the overall winner\<close>

text \<open>
  C7. The result, when there is one, has six categories, named in the order
  intelligence, strength, speed, durability, power, combat, which is the order in which
  the frontend walks the statistics. There is a result exactly when no conversion of a
  statistic of the two heroes throws; that is so whenever none of their statistics is an
  object or an array, whatever else they are: absent, null, numbers, strings, booleans.
\<close>

theorem categories_canonical_order:
  "(compare host i j A B \<noteq> None) = (convertible host A \<and> convertible host B) \<and>
   ((\<forall>cat r. powerstat A cat \<noteq> JObj r) \<and> (\<forall>cat r. powerstat B cat \<noteq> JObj r) \<longrightarrow>
      compare host i j A B \<noteq> None) \<and>
   (\<forall>r. compare host i j A B = Some r \<longrightarrow>
      map name (categories r) =
        [''intelligence'', ''strength'', ''speed'', ''durability'', ''power'', ''combat''] \<and>
      length (categories r) = 6 \<and>
      stats = map name (categories r))"
proof (intro conjI allI impI)
  show iff: "(compare host i j A B \<noteq> None) = (convertible host A \<and> convertible host B)"
    unfolding compare_None by simp
  assume "(\<forall>cat r. powerstat A cat \<noteq> JObj r) \<and> (\<forall>cat r. powerstat B cat \<noteq> JObj r)"
  then have "convertible host A \<and> convertible host B"
    by (simp add: primitive_convertible)
  with iff show "compare host i j A B \<noteq> None" by blast
next
  fix r
  assume "compare host i j A B = Some r"
  then have "list_all2 (\<lambda>cat c. category host A B cat = Some c) categoriesOrder (categories r)"
    by (simp add: compare_categories array_map_all2)
  then have names: "map name (categories r) = categoriesOrder"
    by (rule names_categories)
  then show "map name (categories r) =
        [''intelligence'', ''strength'', ''speed'', ''durability'', ''power'', ''combat'']"
    by (simp add: categoriesOrder_def)
  from names have "length (map name (categories r)) = length categoriesOrder" by simp
  then show "length (categories r) = 6" by (simp add: categoriesOrder_def)
  from names show "stats = map name (categories r)"
    by (simp add: categoriesOrder_def stats_def)
qed

theorem categories_canonical_order_witness:
  "(\<forall>cat r. powerstat hero_A cat \<noteq> JObj r) \<and> (\<forall>cat r. powerstat hero_B cat \<noteq> JObj r) \<and>
   compare host_decimal (Val 1) (Val 2) hero_A hero_B \<noteq> None \<and>
   map name (categories (the (compare host_decimal (Val 1) (Val 2) hero_A hero_B))) =
     [''intelligence'', ''strength'', ''speed'', ''durability'', ''power'', ''combat'']"
proof -
  have A: "\<forall>cat r. powerstat hero_A cat \<noteq> JObj r"
    by (simp add: powerstat_def hero_A_def)
  have B: "\<forall>cat r. powerstat hero_B cat \<noteq> JObj r"
    by (simp add: powerstat_def hero_B_def)
  from categories_canonical_order [of host_decimal "Val 1" "Val 2" hero_A hero_B] A B
  show ?thesis by auto
qed

text \<open>
  The record whose strength is an object that cannot be converted: no result and the
  answer 500.
\<close>

theorem categories_canonical_order_counterexample:
  "compare host_decimal (Val 4) (Val 2) hero_odd hero_B = None \<and>
   compare_handler host_decimal (Some [hero_odd, hero_B]) (Some ''4'') (Some ''2'') =
     SendText 500 ''Internal Server Error''"
proof -
  have none: "compare host_decimal (Val 4) (Val 2) hero_odd hero_B = None"
    by (simp add: compare_def categoriesOrder_def category_def powerstat_def hero_odd_def
        hero_B_def Number_def host_decimal_def object_decimal_def)
  have "compare_handler host_decimal (Some [hero_odd, hero_B]) (Some ''4'') (Some ''2'') =
      (case compare host_decimal (Val 4) (Val 2) hero_odd hero_B of
         None \<Rightarrow> SendText 500 ''Internal Server Error''
       | Some result \<Rightarrow> JsonResult result)"
    by (simp add: compare_handler_def id_is_def query_value_def falsy_def Number_def
        host_decimal_def Number_decimal_def is_digit_def hero_odd_def hero_B_def)
  with none show ?thesis by simp
qed

lemma score_step_count:
  "score_step host A B x sc = Some sc' \<Longrightarrow>
   sc' = (fst sc + (if safe_gt host A B x then 1 else 0),
          snd sc + (if safe_gt host B A x then 1 else 0))"
  by (auto simp: score_step_def safe_gt_def split: option.splits dest: gt_asym)

lemma forEach_score_count:
  "array_forEach (score_step host A B) xs sc = Some sc' \<Longrightarrow>
   sc' = (fst sc + length (filter (safe_gt host A B) xs),
          snd sc + length (filter (safe_gt host B A) xs))"
proof (induction xs arbitrary: sc)
  case Nil
  then show ?case by simp
next
  case (Cons x xs)
  from Cons.prems obtain s where s: "score_step host A B x sc = Some s"
    and rest: "array_forEach (score_step host A B) xs s = Some sc'"
    by (auto split: option.splits)
  from Cons.IH [OF rest] score_step_count [OF s] show ?case
    by simp
qed

lemma calculateWinner_majority:
  assumes "calculateWinner host A B = Some v"
  shows "winner_hero v =
     (if stat_wins host B A < stat_wins host A B then Some A
      else if stat_wins host A B < stat_wins host B A then Some B
      else None)"
proof -
  from assms obtain sc where sc: "array_forEach (score_step host A B) stats (0, 0) = Some sc"
    by (auto simp: calculateWinner_def split: option.splits)
  from forEach_score_count [OF sc] have "sc = (stat_wins host A B, stat_wins host B A)"
    by (simp add: stat_wins_def)
  with assms sc show ?thesis
    by (auto simp: calculateWinner_def Let_def)
qed

text \<open>
  C8. The overall winner is one of 1, 2 and tie; it is the side that has won more
  categories than the other, categories that are ties counting for neither, and it is a
  tie exactly when both sides have won the same number of categories. The frontend's
  verdict follows the same rule on the statistics read safely.
\<close>

theorem overall_winner_majority:
  "(\<forall>r. compare host i j A B = Some r \<longrightarrow>
      overall_winner r \<in> {W1, W2, Tie} \<and>
      (overall_winner r = W1) = (wins W2 r < wins W1 r) \<and>
      (overall_winner r = W2) = (wins W1 r < wins W2 r) \<and>
      (overall_winner r = Tie) = (wins W1 r = wins W2 r)) \<and>
   (\<forall>v. calculateWinner host A B = Some v \<longrightarrow>
      winner_hero v =
        (if stat_wins host B A < stat_wins host A B then Some A
         else if stat_wins host A B < stat_wins host B A then Some B
         else None))"
proof (intro conjI allI impI)
  fix r
  assume r: "compare host i j A B = Some r"
  show "overall_winner r \<in> {W1, W2, Tie}"
    by (cases "overall_winner r") simp_all
  from r show "(overall_winner r = W1) = (wins W2 r < wins W1 r)"
    by (auto simp: compare_def Let_def wins_def split: option.splits if_splits)
  from r show "(overall_winner r = W2) = (wins W1 r < wins W2 r)"
    by (auto simp: compare_def Let_def wins_def split: option.splits if_splits)
  from r show "(overall_winner r = Tie) = (wins W1 r = wins W2 r)"
    by (auto simp: compare_def Let_def wins_def split: option.splits if_splits)
next
  fix v
  assume "calculateWinner host A B = Some v"
  then show "winner_hero v =
        (if stat_wins host B A < stat_wins host A B then Some A
         else if stat_wins host A B < stat_wins host B A then Some B
         else None)"
    by (rule calculateWinner_majority)
qed

theorem overall_winner_majority_witness:
  "compare host_decimal (Val 1) (Val 2) hero_A hero_B \<noteq> None \<and>
   overall_winner (the (compare host_decimal (Val 1) (Val 2) hero_A hero_B)) = W2 \<and>
   wins W1 (the (compare host_decimal (Val 1) (Val 2) hero_A hero_B)) = 0 \<and>
   wins W2 (the (compare host_decimal (Val 1) (Val 2) hero_A hero_B)) = 4 \<and>
   calculateWinner host_decimal hero_A hero_B \<noteq> None \<and>
   winner_hero (the (calculateWinner host_decimal hero_A hero_B)) = Some hero_B"
proof -
  have v: "calculateWinner host_decimal hero_A hero_B =
     Some \<lparr>winner_hero = Some hero_B, score = (6, 0)\<rparr>"
    by (simp add: calculateWinner_def stats_def score_step_def getSafeStat_def parseInt_def
        hero_A_def hero_B_def host_decimal_def parseInt_decimal_def is_digit_def)
  from overall_winner_majority [of host_decimal "Val 1" "Val 2" hero_A hero_B]
  show ?thesis
    by (simp add: compare_A_B v wins_def)
qed

subsection \<open>Comparing a hero with itself\<close>

lemma category_self: "category host A A cat = Some c \<Longrightarrow> winner c = Tie"
  by (auto simp: category_def gt_irrefl split: option.splits)

lemma compare_self_categories:
  assumes "compare host i j A A = Some r"
  shows "\<forall>c \<in> set (categories r). winner c = Tie"
proof
  fix c
  assume "c \<in> set (categories r)"
  with compare_categories [OF assms] obtain cat where "category host A A cat = Some c"
    by (blast dest: array_map_member)
  then show "winner c = Tie" by (rule category_self)
qed

lemma filter_all_ties:
  "\<forall>c \<in> set cs. winner c = Tie \<Longrightarrow> w \<noteq> Tie \<Longrightarrow> filter (\<lambda>c. winner c = w) cs = []"
  by (induction cs) auto

lemma compare_self_overall:
  assumes "compare host i j A A = Some r"
  shows "overall_winner r = Tie"
proof -
  have "filter (\<lambda>c. winner c = W1) (categories r) = []"
    "filter (\<lambda>c. winner c = W2) (categories r) = []"
    using compare_self_categories [OF assms] by (simp_all add: filter_all_ties)
  with assms show ?thesis
    by (auto simp: compare_def Let_def split: option.splits)
qed

lemma all_ties_replicate:
  "\<forall>c \<in> set cs. winner c = Tie \<Longrightarrow> map winner cs = replicate (length cs) Tie"
  by (induction cs) auto

lemma array_find_Some: "array_find p xs = Some (Some x) \<Longrightarrow> p x = Some True"
  by (induction xs) (auto split: option.splits bool.splits)

text \<open>
  C9. A request whose two ids are the same number, and are the id of a hero of the
  store, is answered with a comparison of that hero with itself when no conversion of
  one of the hero's statistics throws: every category is a tie and so is the overall
  winner. When a conversion throws, the answer is 500.
\<close>

theorem self_comparison:
  assumes "\<not> falsy q1" and "\<not> falsy q2"
    and "Number host (query_value q1) = Some n"
    and "Number host (query_value q2) = Some n"
    and "array_find (id_is host n) superheroes = Some (Some hero)"
  shows "(convertible host hero \<longrightarrow>
           (\<exists>r. compare_handler host (Some superheroes) q1 q2 = JsonResult r \<and>
                compare host n n hero hero = Some r \<and>
                (\<forall>c \<in> set (categories r). winner c = Tie) \<and>
                length (categories r) = 6 \<and>
                overall_winner r = Tie)) \<and>
         (\<not> convertible host hero \<longrightarrow>
            compare_handler host (Some superheroes) q1 q2 =
              SendText 500 ''Internal Server Error'')"
proof -
  from assms(5) have "id_is host n hero = Some True" by (rule array_find_Some)
  then have "n \<noteq> NaN"
    by (auto simp: id_is_def split: option.splits dest: strict_eq_NaN)
  with assms have handler: "compare_handler host (Some superheroes) q1 q2 =
      (case compare host n n hero hero of
         None \<Rightarrow> SendText 500 ''Internal Server Error''
       | Some result \<Rightarrow> JsonResult result)"
    by (simp add: compare_handler_def)
  show ?thesis
  proof (intro conjI impI)
    assume "convertible host hero"
    then obtain r where r: "compare host n n hero hero = Some r"
      using compare_None [of host n n hero hero] by auto
    from r have "list_all2 (\<lambda>cat c. category host hero hero cat = Some c)
        categoriesOrder (categories r)"
      by (simp add: compare_categories array_map_all2)
    then have "length (categories r) = 6"
      by (auto simp: categoriesOrder_def dest: list_all2_lengthD)
    with r handler compare_self_categories [OF r] compare_self_overall [OF r]
    show "\<exists>r. compare_handler host (Some superheroes) q1 q2 = JsonResult r \<and>
                compare host n n hero hero = Some r \<and>
                (\<forall>c \<in> set (categories r). winner c = Tie) \<and>
                length (categories r) = 6 \<and>
                overall_winner r = Tie"
      by simp
  next
    assume "\<not> convertible host hero"
    then have "compare host n n hero hero = None"
      by (simp add: compare_None)
    with handler show "compare_handler host (Some superheroes) q1 q2 =
              SendText 500 ''Internal Server Error''"
      by simp
  qed
qed

theorem self_comparison_witness:
  "convertible host_decimal hero_A \<and>
   compare_handler host_decimal (Some [hero_A, hero_B]) (Some ''1'') (Some ''1'') =
     JsonResult (the (compare host_decimal (Val 1) (Val 1) hero_A hero_A)) \<and>
   map winner (categories (the (compare host_decimal (Val 1) (Val 1) hero_A hero_A))) =
     [Tie, Tie, Tie, Tie, Tie, Tie] \<and>
   overall_winner (the (compare host_decimal (Val 1) (Val 1) hero_A hero_A)) = Tie"
proof -
  have q: "Number host_decimal (query_value (Some ''1'')) = Some (Val 1)"
    by (simp add: query_value_def Number_def host_decimal_def Number_decimal_def is_digit_def)
  have found: "array_find (id_is host_decimal (Val 1)) [hero_A, hero_B] = Some (Some hero_A)"
    by (simp add: id_is_def Number_def hero_A_def)
  have conv: "convertible host_decimal hero_A"
    by (simp add: convertible_def categoriesOrder_def powerstat_def hero_A_def Number_def)
  have t: "\<not> falsy (Some ''1'')" by (simp add: falsy_def)
  from self_comparison [OF t t q q found] conv
  obtain r where r: "compare host_decimal (Val 1) (Val 1) hero_A hero_A = Some r"
    and h: "compare_handler host_decimal (Some [hero_A, hero_B]) (Some ''1'') (Some ''1'') =
      JsonResult r"
    and ties: "\<forall>c \<in> set (categories r). winner c = Tie"
    and six: "length (categories r) = 6"
    and overall: "overall_winner r = Tie"
    by blast
  from ties have "map winner (categories r) = replicate (length (categories r)) Tie"
    by (rule all_ties_replicate)
  with six have "map winner (categories r) = [Tie, Tie, Tie, Tie, Tie, Tie]"
    by (simp add: numeral_eq_Suc)
  with conv r h overall show ?thesis by simp
qed

text \<open>
  The same request for the record whose strength is an object that cannot be
  converted: the answer is 500, not a comparison.
\<close>

theorem self_comparison_counterexample:
  "compare_handler host_decimal (Some [hero_odd, hero_B]) (Some ''4'') (Some ''4'') =
     SendText 500 ''Internal Server Error''"
proof -
  have "compare host_decimal (Val 4) (Val 4) hero_odd hero_odd = None"
    by (simp add: compare_def categoriesOrder_def category_def powerstat_def hero_odd_def
        Number_def host_decimal_def object_decimal_def)
  moreover have
    "compare_handler host_decimal (Some [hero_odd, hero_B]) (Some ''4'') (Some ''4'') =
      (case compare host_decimal (Val 4) (Val 4) hero_odd hero_odd of
         None \<Rightarrow> SendText 500 ''Internal Server Error''
       | Some result \<Rightarrow> JsonResult result)"
    by (simp add: compare_handler_def id_is_def query_value_def falsy_def Number_def
        host_decimal_def Number_decimal_def is_digit_def hero_odd_def hero_B_def)
  ultimately show ?thesis by simp
qed

section \<open>The request\<close>

text \<open>
  A search that finds nothing has converted the id of every hero of the store, so that
  no search over the same store throws.
\<close>

lemma array_find_none_all:
  "array_find (id_is host n) xs = Some None \<Longrightarrow>
   \<forall>x \<in> set xs. Number host (hero_id x) \<noteq> None"
  by (induction xs) (auto simp: id_is_def split: option.splits bool.splits if_splits)

lemma array_find_total:
  "\<forall>x \<in> set xs. Number host (hero_id x) \<noteq> None \<Longrightarrow>
   array_find (id_is host m) xs \<noteq> None"
  by (induction xs) (auto simp: id_is_def split: option.splits bool.splits)

text \<open>The conversions before the \<open>try\<close> are of query strings: the handler always answers.\<close>

lemma handler_answers: "compare_handler host loaded q1 q2 \<noteq> Rejected"
  by (auto simp: compare_handler_def Number_query split: option.splits prod.splits)

text \<open>
  C2. A request in which an id is missing (absent or empty) or is not a number is
  answered with a 400 response whose message is not that of the response for an id
  that no hero of the store has; the two kinds of response carry the same code 400 and
  the same tag \<open>invalid_request\<close> and differ in the message. In the three cases the
  response is an error response: the handler returns before the categories are computed.
\<close>

theorem invalid_request_vs_not_found:
  "(falsy q1 \<or> falsy q2 \<longrightarrow>
      compare_handler host loaded q1 q2 =
        JsonError 400 ''Both id1 and id2 query parameters are required'' ''invalid_request'') \<and>
   (\<not> falsy q1 \<and> \<not> falsy q2 \<and>
    (Number host (query_value q1) = Some NaN \<or> Number host (query_value q2) = Some NaN) \<longrightarrow>
      compare_handler host loaded q1 q2 =
        JsonError 400 ''id1 and id2 must be valid numbers'' ''invalid_request'') \<and>
   (\<not> falsy q1 \<and> \<not> falsy q2 \<and>
    Number host (query_value q1) = Some n1 \<and> n1 \<noteq> NaN \<and>
    Number host (query_value q2) = Some n2 \<and> n2 \<noteq> NaN \<and>
    (array_find (id_is host n1) superheroes = Some None \<or>
     array_find (id_is host n2) superheroes = Some None) \<longrightarrow>
      compare_handler host (Some superheroes) q1 q2 =
        JsonError 400 ''One or both superheroes not found'' ''invalid_request'') \<and>
   ''Both id1 and id2 query parameters are required'' \<noteq> ''One or both superheroes not found'' \<and>
   ''id1 and id2 must be valid numbers'' \<noteq> ''One or both superheroes not found''"
proof (intro conjI impI)
  assume "falsy q1 \<or> falsy q2"
  then show "compare_handler host loaded q1 q2 =
        JsonError 400 ''Both id1 and id2 query parameters are required'' ''invalid_request''"
    by (auto simp: compare_handler_def Number_query)
next
  assume "\<not> falsy q1 \<and> \<not> falsy q2 \<and>
    (Number host (query_value q1) = Some NaN \<or> Number host (query_value q2) = Some NaN)"
  then show "compare_handler host loaded q1 q2 =
        JsonError 400 ''id1 and id2 must be valid numbers'' ''invalid_request''"
    using Number_query [of host q1] Number_query [of host q2]
    by (auto simp: compare_handler_def)
next
  assume "\<not> falsy q1 \<and> \<not> falsy q2 \<and>
    Number host (query_value q1) = Some n1 \<and> n1 \<noteq> NaN \<and>
    Number host (query_value q2) = Some n2 \<and> n2 \<noteq> NaN \<and>
    (array_find (id_is host n1) superheroes = Some None \<or>
     array_find (id_is host n2) superheroes = Some None)"
  then have ids: "\<not> falsy q1" "\<not> falsy q2"
      "Number host (query_value q1) = Some n1" "n1 \<noteq> NaN"
      "Number host (query_value q2) = Some n2" "n2 \<noteq> NaN"
    and none: "array_find (id_is host n1) superheroes = Some None \<or>
      array_find (id_is host n2) superheroes = Some None"
    by simp_all
  from none have "\<forall>x \<in> set superheroes. Number host (hero_id x) \<noteq> None"
    by (auto dest: array_find_none_all)
  then obtain found1 found2 where found:
    "array_find (id_is host n1) superheroes = Some found1"
    "array_find (id_is host n2) superheroes = Some found2"
    using array_find_total [of superheroes host n1] array_find_total [of superheroes host n2]
    by auto
  with none have "found1 = None \<or> found2 = None" by auto
  with ids found show "compare_handler host (Some superheroes) q1 q2 =
        JsonError 400 ''One or both superheroes not found'' ''invalid_request''"
    by (auto simp: compare_handler_def split: option.splits)
qed simp_all

theorem invalid_request_vs_not_found_witness:
  "compare_handler host_decimal (Some [hero_A, hero_B]) None (Some ''2'') =
     JsonError 400 ''Both id1 and id2 query parameters are required'' ''invalid_request'' \<and>
   compare_handler host_decimal (Some [hero_A, hero_B]) (Some ''abc'') (Some ''2'') =
     JsonError 400 ''id1 and id2 must be valid numbers'' ''invalid_request'' \<and>
   compare_handler host_decimal (Some [hero_A, hero_B]) (Some ''1'') (Some ''9999'') =
     JsonError 400 ''One or both superheroes not found'' ''invalid_request''"
proof -
  have n: "Number host_decimal (query_value (Some ''abc'')) = Some NaN"
    "Number host_decimal (query_value (Some ''1'')) = Some (Val 1)"
    "Number host_decimal (query_value (Some ''9999'')) = Some (Val 9999)"
    by (simp_all add: query_value_def Number_def host_decimal_def Number_decimal_def is_digit_def)
  have f: "array_find (id_is host_decimal (Val 1)) [hero_A, hero_B] = Some (Some hero_A)"
    "array_find (id_is host_decimal (Val 9999)) [hero_A, hero_B] = Some None"
    by (simp_all add: id_is_def Number_def hero_A_def hero_B_def)
  have t: "falsy None" "\<not> falsy (Some ''abc'')" "\<not> falsy (Some ''2'')" "\<not> falsy (Some ''1'')"
    "\<not> falsy (Some ''9999'')"
    by (simp_all add: falsy_def)
  from
    invalid_request_vs_not_found
      [of None "Some ''2''" host_decimal "Some [hero_A, hero_B]"]
    invalid_request_vs_not_found
      [of "Some ''abc''" "Some ''2''" host_decimal "Some [hero_A, hero_B]"]
    invalid_request_vs_not_found
      [of "Some ''1''" "Some ''9999''" host_decimal _ "Val 1" "Val 9999" "[hero_A, hero_B]"]
    n f t
  show ?thesis by simp
qed

end
